theory Spec2Isabelle
  imports Complex_Main "HOL-Library.Char_ord" "HOL-Library.List_Lexorder" "HOL-Library.Sublist"
begin

section \<open>Python values read from the JSON snapshot files\<close>

text \<open>
  Both scripts (\<^verbatim>\<open>graphs.py\<close> and \<^verbatim>\<open>monitor/graphs.py\<close>) read JSON documents with
  \<^verbatim>\<open>json.load\<close> and then work on the resulting Python objects with dynamically typed
  operations. The datatype below is the image of \<^verbatim>\<open>json.load\<close>: \<^verbatim>\<open>None\<close>, \<^verbatim>\<open>bool\<close>,
  \<^verbatim>\<open>int\<close>, \<^verbatim>\<open>float\<close>, \<^verbatim>\<open>str\<close>, \<^verbatim>\<open>list\<close> and \<^verbatim>\<open>dict\<close>. A \<^verbatim>\<open>dict\<close> is an association
  list in insertion order, read with \<open>map_of\<close>. A \<^verbatim>\<open>float\<close> is represented by the rational
  number it denotes: rounding, infinities and NaN are outside the model, and no statement
  below depends on them.
\<close>

datatype json =
    JNull
  | JBool bool
  | JInt int
  | JFloat rat
  | JStr string
  | JArr "json list"
  | JObj "(string \<times> json) list"

text \<open>The exceptions the two loaders can meet; all of them are subclasses of
  \<^verbatim>\<open>Exception\<close>, so an \<^verbatim>\<open>except Exception\<close> clause catches each of them.\<close>

datatype py_error =
    OSError
  | ValueError
  | KeyError
  | TypeError
  | AttributeError
  | ZeroDivisionError

text \<open>Sequencing of computations that may raise: the first exception wins.\<close>

definition and_then :: "py_error + 'a \<Rightarrow> ('a \<Rightarrow> py_error + 'b) \<Rightarrow> py_error + 'b" where
  "and_then r f = (case r of Inl e \<Rightarrow> Inl e | Inr v \<Rightarrow> f v)"

text \<open>Truth value of an object, as tested by \<^verbatim>\<open>if x\<close> and \<^verbatim>\<open>x and y\<close>.\<close>

fun py_truthy :: "json \<Rightarrow> bool" where
  "py_truthy JNull = False"
| "py_truthy (JBool b) = b"
| "py_truthy (JInt n) = (n \<noteq> 0)"
| "py_truthy (JFloat q) = (q \<noteq> 0)"
| "py_truthy (JStr s) = (s \<noteq> [])"
| "py_truthy (JArr xs) = (xs \<noteq> [])"
| "py_truthy (JObj kvs) = (kvs \<noteq> [])"

text \<open>\<^verbatim>\<open>x[key]\<close> for a string key: only a \<^verbatim>\<open>dict\<close> can be subscripted with a string;
  a missing key raises \<^verbatim>\<open>KeyError\<close>, every other object raises \<^verbatim>\<open>TypeError\<close>.\<close>

fun py_getitem :: "json \<Rightarrow> string \<Rightarrow> py_error + json" where
  "py_getitem (JObj kvs) key =
     (case map_of kvs key of None \<Rightarrow> Inl KeyError | Some v \<Rightarrow> Inr v)"
| "py_getitem _ key = Inl TypeError"

text \<open>\<^verbatim>\<open>x.get(key, default)\<close>: a method of \<^verbatim>\<open>dict\<close> only; every other object raises
  \<^verbatim>\<open>AttributeError\<close>.\<close>

fun py_get :: "json \<Rightarrow> string \<Rightarrow> json \<Rightarrow> py_error + json" where
  "py_get (JObj kvs) key dflt =
     (case map_of kvs key of None \<Rightarrow> Inr dflt | Some v \<Rightarrow> Inr v)"
| "py_get _ key dflt = Inl AttributeError"

text \<open>\<^verbatim>\<open>for x in obj\<close>: a list yields its elements, a dict its keys, a string its
  characters; \<^verbatim>\<open>None\<close>, booleans and numbers are not iterable.\<close>

fun py_iter :: "json \<Rightarrow> py_error + json list" where
  "py_iter (JArr xs) = Inr xs"
| "py_iter (JObj kvs) = Inr (map (\<lambda>kv. JStr (fst kv)) kvs)"
| "py_iter (JStr s) = Inr (map (\<lambda>c. JStr [c]) s)"
| "py_iter _ = Inl TypeError"

text \<open>Numbers. \<^verbatim>\<open>bool\<close> is a subclass of \<^verbatim>\<open>int\<close>, so \<^verbatim>\<open>True\<close> and \<^verbatim>\<open>False\<close> take part
  in arithmetic as 1 and 0.\<close>

datatype number = IntN int | FloatN rat

fun as_number :: "json \<Rightarrow> number option" where
  "as_number (JBool b) = Some (IntN (if b then 1 else 0))"
| "as_number (JInt n) = Some (IntN n)"
| "as_number (JFloat q) = Some (FloatN q)"
| "as_number _ = None"

fun of_number :: "number \<Rightarrow> json" where
  "of_number (IntN n) = JInt n"
| "of_number (FloatN q) = JFloat q"

fun num_value :: "number \<Rightarrow> rat" where
  "num_value (IntN n) = of_int n"
| "num_value (FloatN q) = q"

fun num_add :: "number \<Rightarrow> number \<Rightarrow> number" where
  "num_add (IntN a) (IntN b) = IntN (a + b)"
| "num_add a b = FloatN (num_value a + num_value b)"

text \<open>\<^verbatim>\<open>acc + v\<close> for a numeric accumulator, as \<^verbatim>\<open>sum\<close> performs it starting from the
  integer 0: adding anything but a number raises \<^verbatim>\<open>TypeError\<close>.\<close>

definition add_to :: "number \<Rightarrow> json \<Rightarrow> py_error + number" where
  "add_to acc v = (case as_number v of None \<Rightarrow> Inl TypeError | Some n \<Rightarrow> Inr (num_add acc n))"

text \<open>True division \<^verbatim>\<open>a / b\<close>: operands that are not numbers raise \<^verbatim>\<open>TypeError\<close>, a zero
  divisor raises \<^verbatim>\<open>ZeroDivisionError\<close>, otherwise the result is a float.\<close>

definition py_truediv :: "json \<Rightarrow> json \<Rightarrow> py_error + json" where
  "py_truediv a b =
     (case (as_number a, as_number b) of
        (Some x, Some y) \<Rightarrow>
          if num_value y = 0 then Inl ZeroDivisionError
          else Inr (JFloat (num_value x / num_value y))
      | _ \<Rightarrow> Inl TypeError)"

section \<open>The file system and the library functions\<close>

text \<open>
  A directory is the list of its entries in the order the operating system reports
  them. An entry either cannot be opened (\<^verbatim>\<open>open\<close> raises \<^verbatim>\<open>OSError\<close>: no permission, a
  directory, a dangling link), or opens but is rejected by \<^verbatim>\<open>json.load\<close> (a
  \<^verbatim>\<open>JSONDecodeError\<close> or \<^verbatim>\<open>UnicodeDecodeError\<close>, both subclasses of \<^verbatim>\<open>ValueError\<close>), or
  holds a JSON document. Names are base names; both loaders sort the paths of one
  directory, which orders them as their base names.
\<close>

datatype disk_file = Unopenable | Undecodable | Content json

type_synonym folder = "(string \<times> disk_file) list"

text \<open>\<^verbatim>\<open>json.load(f)\<close> on an opened file.\<close>

fun json_load :: "disk_file \<Rightarrow> py_error + json" where
  "json_load (Content c) = Inr c"
| "json_load _ = Inl ValueError"

text \<open>
  \<^verbatim>\<open>datetime.fromisoformat\<close> is a library function: it is a parameter \<open>fromiso\<close> of the
  loaders, \<open>None\<close> standing for the \<^verbatim>\<open>ValueError\<close> raised on a string that is not in ISO
  format. An argument that is not a string raises \<^verbatim>\<open>TypeError\<close>.
\<close>

fun fromisoformat :: "(string \<Rightarrow> 'd option) \<Rightarrow> json \<Rightarrow> py_error + 'd" where
  "fromisoformat fromiso (JStr s) =
     (case fromiso s of None \<Rightarrow> Inl ValueError | Some t \<Rightarrow> Inr t)"
| "fromisoformat fromiso _ = Inl TypeError"


text \<open>\<^verbatim>\<open>open(path)\<close> for a name of the directory listing: the entry found under that
  name, or \<^verbatim>\<open>OSError\<close> when it cannot be opened.\<close>

definition py_open :: "folder \<Rightarrow> string \<Rightarrow> py_error + disk_file" where
  "py_open dir name =
     (case map_of dir name of
        None \<Rightarrow> Inl OSError
      | Some Unopenable \<Rightarrow> Inl OSError
      | Some f \<Rightarrow> Inr f)"

text \<open>\<^verbatim>\<open>filename.endswith(".json")\<close>, the filter of \<^verbatim>\<open>load_metrics\<close>.\<close>

definition endswith_json :: "string \<Rightarrow> bool" where
  "endswith_json name =
     (5 \<le> length name \<and> drop (length name - 5) name = ''.json'')"

text \<open>The pattern \<^verbatim>\<open>stats_*.json\<close> of \<^verbatim>\<open>glob.glob\<close> in \<^verbatim>\<open>load_snapshots\<close>: the literal
  prefix, then any characters, then the literal suffix.\<close>

definition glob_stats_json :: "string \<Rightarrow> bool" where
  "glob_stats_json name =
     (take 6 name = ''stats_'' \<and> endswith_json (drop 6 name))"

section \<open>The loader of \<^verbatim>\<open>monitor/graphs.py\<close>: \<^verbatim>\<open>load_metrics\<close>\<close>

record 'd data_point =
  timestamp :: 'd
  blks_ratio :: json
  toast_total :: json
  avg_select_time_ms :: json
  avg_insert_time_ms :: json
  avg_update_time_ms :: json
  avg_delete_time_ms :: json
  avg_select_size_bytes :: json

text \<open>The condition of the generator expression (lines 21--22):
  \<^verbatim>\<open>db["datname"]["String"] == "postgres" and db["datname"]["Valid"]\<close>. The second
  conjunct is evaluated only when the first holds.\<close>

definition pg_match :: "json \<Rightarrow> py_error + bool" where
  "pg_match db =
     and_then (py_getitem db ''datname'') (\<lambda>d.
     and_then (py_getitem d ''String'') (\<lambda>s.
       if s = JStr ''postgres'' then
         and_then (py_getitem db ''datname'') (\<lambda>d'.
         and_then (py_getitem d' ''Valid'') (\<lambda>v. Inr (py_truthy v)))
       else Inr False))"

text \<open>\<^verbatim>\<open>next((db for db in dbs if ...), None)\<close>: the first element whose condition is
  true; an exception raised by the condition on the way ends the search.\<close>

fun next_pg :: "json list \<Rightarrow> py_error + json option" where
  "next_pg [] = Inr None"
| "next_pg (db # dbs) =
     (case pg_match db of
        Inl e \<Rightarrow> Inl e
      | Inr True \<Rightarrow> Inr (Some db)
      | Inr False \<Rightarrow> next_pg dbs)"

definition pg_stat_of :: "json \<Rightarrow> py_error + json option" where
  "pg_stat_of content =
     and_then (py_getitem content ''db_stats'') (\<lambda>dbs.
     and_then (py_iter dbs) next_pg)"

text \<open>Lines 24--26. \<^verbatim>\<open>pg_stat.get(key, dflt) if pg_stat else dflt\<close>, then the
  division.\<close>

definition get_or :: "json option \<Rightarrow> string \<Rightarrow> json \<Rightarrow> py_error + json" where
  "get_or pg_stat key dflt =
     (case pg_stat of
        None \<Rightarrow> Inr dflt
      | Some db \<Rightarrow> if py_truthy db then py_get db key dflt else Inr dflt)"

definition blks_ratio_of :: "json option \<Rightarrow> py_error + json" where
  "blks_ratio_of pg_stat =
     and_then (get_or pg_stat ''blks_hit'' (JInt 0)) (\<lambda>blks_hit.
     and_then (get_or pg_stat ''blks_read'' (JInt 1)) (\<lambda>blks_read.
       py_truediv blks_hit blks_read))"

text \<open>Line 29: \<^verbatim>\<open>sum(t.get("toast_size_bytes", 0) for t in content.get("toast_stats", []))\<close>.\<close>

fun sum_toast :: "number \<Rightarrow> json list \<Rightarrow> py_error + number" where
  "sum_toast acc [] = Inr acc"
| "sum_toast acc (t # ts) =
     and_then (py_get t ''toast_size_bytes'' (JInt 0)) (\<lambda>v.
     and_then (add_to acc v) (\<lambda>acc'. sum_toast acc' ts))"

definition toast_sum_of :: "json \<Rightarrow> py_error + json" where
  "toast_sum_of content =
     and_then (py_get content ''toast_stats'' (JArr [])) (\<lambda>stats.
     and_then (py_iter stats) (\<lambda>ts.
     and_then (sum_toast (IntN 0) ts) (\<lambda>total. Inr (of_number total))))"

text \<open>The body of the \<^verbatim>\<open>try\<close> block after \<^verbatim>\<open>json.load\<close> (lines 18--41), in the order the
  statements run.\<close>

definition make_data_point :: "(string \<Rightarrow> 'd option) \<Rightarrow> json \<Rightarrow> py_error + 'd data_point" where
  "make_data_point fromiso content =
     and_then (py_getitem content ''timestamp'') (\<lambda>ts_str.
     and_then (fromisoformat fromiso ts_str) (\<lambda>ts.
     and_then (pg_stat_of content) (\<lambda>pg_stat.
     and_then (blks_ratio_of pg_stat) (\<lambda>ratio.
     and_then (toast_sum_of content) (\<lambda>toast_sum.
     and_then (py_get content ''avg_select_time_ms'' JNull) (\<lambda>sel_ms.
     and_then (py_get content ''avg_insert_time_ms'' JNull) (\<lambda>ins_ms.
     and_then (py_get content ''avg_update_time_ms'' JNull) (\<lambda>upd_ms.
     and_then (py_get content ''avg_delete_time_ms'' JNull) (\<lambda>del_ms.
     and_then (py_get content ''avg_select_size_bytes'' JNull) (\<lambda>sel_size.
       Inr \<lparr> timestamp = ts, blks_ratio = ratio, toast_total = toast_sum,
             avg_select_time_ms = sel_ms, avg_insert_time_ms = ins_ms,
             avg_update_time_ms = upd_ms, avg_delete_time_ms = del_ms,
             avg_select_size_bytes = sel_size \<rparr>))))))))))"

text \<open>The whole \<^verbatim>\<open>try\<close> block for one file name: open, parse, derive.\<close>

definition read_metrics_file :: "(string \<Rightarrow> 'd option) \<Rightarrow> folder \<Rightarrow> string \<Rightarrow> py_error + 'd data_point" where
  "read_metrics_file fromiso dir name =
     and_then (py_open dir name) (\<lambda>f.
     and_then (json_load f) (make_data_point fromiso))"

text \<open>
  The loop over the sorted listing. The state is the list \<^verbatim>\<open>data\<close> and the lines printed
  so far (file name and exception). The \<^verbatim>\<open>except Exception\<close> clause encloses the whole
  body, \<^verbatim>\<open>open\<close> included: every exception becomes a printed line.
\<close>

type_synonym diagnostics = "(string \<times> py_error) list"

fun metrics_loop ::
  "(string \<Rightarrow> 'd option) \<Rightarrow> folder \<Rightarrow> 'd data_point list \<times> diagnostics \<Rightarrow> string list
     \<Rightarrow> 'd data_point list \<times> diagnostics" where
  "metrics_loop fromiso dir (data, printed) [] = (data, printed)"
| "metrics_loop fromiso dir (data, printed) (filename # rest) =
     (if \<not> endswith_json filename then metrics_loop fromiso dir (data, printed) rest
      else
        case read_metrics_file fromiso dir filename of
          Inl e \<Rightarrow> metrics_loop fromiso dir (data, printed @ [(filename, e)]) rest
        | Inr data_point \<Rightarrow> metrics_loop fromiso dir (data @ [data_point], printed) rest)"

definition load_metrics :: "(string \<Rightarrow> 'd option) \<Rightarrow> folder \<Rightarrow> 'd data_point list \<times> diagnostics" where
  "load_metrics fromiso dir = metrics_loop fromiso dir ([], []) (sort (map fst dir))"

section \<open>The loader of \<^verbatim>\<open>graphs.py\<close>: \<^verbatim>\<open>load_snapshots\<close>\<close>

record 'd snapshot =
  timestamp :: 'd
  stats :: json

text \<open>
  \<^verbatim>\<open>datetime.now()\<close> is read at most once per file: the parameter \<open>now_t\<close> is the
  wall-clock reading at the moment the file is processed. The body of the \<^verbatim>\<open>try\<close>
  block after \<^verbatim>\<open>json.load\<close> (lines 19--27): \<^verbatim>\<open>isinstance(ts_str, str)\<close> selects the
  parser, every other object (\<^verbatim>\<open>None\<close> for an absent key included) selects the clock.
\<close>

definition make_snapshot :: "(string \<Rightarrow> 'd option) \<Rightarrow> 'd \<Rightarrow> json \<Rightarrow> py_error + 'd snapshot" where
  "make_snapshot fromiso now_t data =
     and_then (py_get data ''timestamp'' JNull) (\<lambda>ts_str.
     and_then (case ts_str of JStr s \<Rightarrow> fromisoformat fromiso ts_str | _ \<Rightarrow> Inr now_t) (\<lambda>ts.
     and_then (py_get data ''stats'' (JArr [])) (\<lambda>st.
       Inr \<lparr> snapshot.timestamp = ts, stats = st \<rparr>)))"

text \<open>The \<^verbatim>\<open>try\<close> block for one opened file (lines 15--27).\<close>

definition parse_snapshot :: "(string \<Rightarrow> 'd option) \<Rightarrow> 'd \<Rightarrow> disk_file \<Rightarrow> py_error + 'd snapshot" where
  "parse_snapshot fromiso now_t f = and_then (json_load f) (make_snapshot fromiso now_t)"

text \<open>
  The loop over the sorted matches of the pattern. \<^verbatim>\<open>open\<close> stands in the \<^verbatim>\<open>with\<close>
  statement outside the \<^verbatim>\<open>try\<close> block (line 14), so its exception leaves the function;
  the exceptions of the block itself are printed and the loop goes on.
\<close>

fun snapshots_loop ::
  "(string \<Rightarrow> 'd option) \<Rightarrow> (string \<Rightarrow> 'd) \<Rightarrow> folder \<Rightarrow> 'd snapshot list \<times> diagnostics
     \<Rightarrow> string list \<Rightarrow> py_error + 'd snapshot list \<times> diagnostics" where
  "snapshots_loop fromiso now dir (snapshots, printed) [] = Inr (snapshots, printed)"
| "snapshots_loop fromiso now dir (snapshots, printed) (filename # rest) =
     (case py_open dir filename of
        Inl e \<Rightarrow> Inl e
      | Inr f \<Rightarrow>
          (case parse_snapshot fromiso (now filename) f of
             Inl e \<Rightarrow> snapshots_loop fromiso now dir (snapshots, printed @ [(filename, e)]) rest
           | Inr snap \<Rightarrow> snapshots_loop fromiso now dir (snapshots @ [snap], printed) rest))"

definition load_snapshots ::
  "(string \<Rightarrow> 'd option) \<Rightarrow> (string \<Rightarrow> 'd) \<Rightarrow> folder \<Rightarrow> py_error + 'd snapshot list \<times> diagnostics" where
  "load_snapshots fromiso now export_dir =
     snapshots_loop fromiso now export_dir ([], [])
       (sort (filter glob_stats_json (map fst export_dir)))"

section \<open>The generic metric extractor: \<^verbatim>\<open>build_timeseries\<close>\<close>

text \<open>
  Keys of the result dictionary. A key must be hashable (a list or a dict raises
  \<^verbatim>\<open>TypeError\<close>), and keys that compare equal are one key: \<^verbatim>\<open>True\<close>, \<^verbatim>\<open>1\<close> and \<^verbatim>\<open>1.0\<close>
  address the same entry.
\<close>

datatype hkey = NoneKey | NumKey rat | StrKey string

fun py_hash_key :: "json \<Rightarrow> py_error + hkey" where
  "py_hash_key JNull = Inr NoneKey"
| "py_hash_key (JBool b) = Inr (NumKey (if b then 1 else 0))"
| "py_hash_key (JInt n) = Inr (NumKey (of_int n))"
| "py_hash_key (JFloat q) = Inr (NumKey q)"
| "py_hash_key (JStr s) = Inr (StrKey s)"
| "py_hash_key _ = Inl TypeError"

text \<open>The dictionary \<^verbatim>\<open>{ datname: ([timestamps], [values]) }\<close>, in insertion order.\<close>

type_synonym 'd timeseries = "(hkey \<times> 'd list \<times> json list) list"

text \<open>Lines 44--46: \<^verbatim>\<open>times.append(t); values.append(value)\<close> on the two lists stored
  under the key. Each key owns its two lists (line 43 creates them fresh), so the update
  touches this entry only.\<close>

fun series_append :: "hkey \<Rightarrow> 'd \<Rightarrow> json \<Rightarrow> 'd timeseries \<Rightarrow> 'd timeseries" where
  "series_append k t v [] = []"
| "series_append k t v ((k', tms, vals) # rest) =
     (if k' = k then (k', tms @ [t], vals @ [v]) # rest
      else (k', tms, vals) # series_append k t v rest)"

text \<open>The body of the inner loop (lines 38--46).\<close>

definition add_record :: "'d \<Rightarrow> string \<Rightarrow> 'd timeseries \<Rightarrow> json \<Rightarrow> py_error + 'd timeseries" where
  "add_record t metric timeseries record =
     and_then (py_get record ''datname'' (JStr ''unknown'')) (\<lambda>dbname.
     and_then (py_get record metric JNull) (\<lambda>v.
       if v = JNull then Inr timeseries
       else
         and_then (py_hash_key dbname) (\<lambda>k.
           Inr (series_append k t v
                  (if map_of timeseries k = None then timeseries @ [(k, [], [])]
                   else timeseries)))))"

fun records_loop :: "'d \<Rightarrow> string \<Rightarrow> 'd timeseries \<Rightarrow> json list \<Rightarrow> py_error + 'd timeseries" where
  "records_loop t metric timeseries [] = Inr timeseries"
| "records_loop t metric timeseries (record # rest) =
     and_then (add_record t metric timeseries record) (\<lambda>timeseries'.
       records_loop t metric timeseries' rest)"

fun timeseries_loop :: "string \<Rightarrow> 'd timeseries \<Rightarrow> 'd snapshot list \<Rightarrow> py_error + 'd timeseries" where
  "timeseries_loop metric timeseries [] = Inr timeseries"
| "timeseries_loop metric timeseries (snap # rest) =
     and_then (py_iter (stats snap)) (\<lambda>records.
     and_then (records_loop (snapshot.timestamp snap) metric timeseries records) (\<lambda>timeseries'.
       timeseries_loop metric timeseries' rest))"

definition build_timeseries :: "'d snapshot list \<Rightarrow> string \<Rightarrow> py_error + 'd timeseries" where
  "build_timeseries snapshots metric = timeseries_loop metric [] snapshots"

section \<open>The single-folder pipeline: \<^verbatim>\<open>main\<close> of \<^verbatim>\<open>graphs.py\<close>\<close>

text \<open>What \<^verbatim>\<open>main\<close> does after parsing its arguments (lines 67--77): one of two
  messages, or the call of \<^verbatim>\<open>plot_metric\<close>. An exception that leaves \<^verbatim>\<open>load_snapshots\<close>
  or \<^verbatim>\<open>build_timeseries\<close> leaves \<^verbatim>\<open>main\<close>.\<close>

datatype 'd report =
    NoStatFiles
  | MetricNotFound string
  | PlotMetric "'d timeseries" string

definition main ::
  "(string \<Rightarrow> 'd option) \<Rightarrow> (string \<Rightarrow> 'd) \<Rightarrow> string \<Rightarrow> folder \<Rightarrow> py_error + 'd report" where
  "main fromiso now metric export_dir =
     and_then (load_snapshots fromiso now export_dir) (\<lambda>loaded.
       if fst loaded = [] then Inr NoStatFiles
       else
         and_then (build_timeseries (fst loaded) metric) (\<lambda>timeseries.
           if timeseries = [] then Inr (MetricNotFound metric)
           else Inr (PlotMetric timeseries metric)))"

section \<open>Sample instances of the library parameters\<close>

text \<open>
  The concrete evaluations below need a parser and a clock. \<open>sample_fromiso\<close> accepts the
  two date-times of the end-to-end example of the specification and returns them
  unchanged; every other string it is applied to below (\<^verbatim>\<open>"yesterday"\<close>) is one that
  \<^verbatim>\<open>datetime.fromisoformat\<close> rejects as well. \<open>sample_now\<close> is a clock reading that is
  told apart from every parsed timestamp.
\<close>

definition sample_fromiso :: "string \<Rightarrow> string option" where
  "sample_fromiso s =
     (if s = ''2024-01-01T00:00:00'' \<or> s = ''2024-01-02T00:00:00'' then Some s else None)"

definition sample_now :: "string \<Rightarrow> string" where
  "sample_now filename = ''now''"

text \<open>A \<^verbatim>\<open>db_stats\<close> record as the monitor writes it:
  \<^verbatim>\<open>{"datname": {"String": s, "Valid": v}, "blks_hit": h, "blks_read": r}\<close>.\<close>

definition db_record :: "string \<Rightarrow> bool \<Rightarrow> int \<Rightarrow> int \<Rightarrow> json" where
  "db_record s v h r =
     JObj [(''datname'', JObj [(''String'', JStr s), (''Valid'', JBool v)]),
           (''blks_hit'', JInt h), (''blks_read'', JInt r)]"

text \<open>A snapshot file of the monitor with the given \<^verbatim>\<open>db_stats\<close> and \<^verbatim>\<open>toast_stats\<close>
  arrays and a timestamp the sample parser accepts.\<close>

definition metrics_doc :: "json list \<Rightarrow> json list \<Rightarrow> json" where
  "metrics_doc dbs toasts =
     JObj [(''timestamp'', JStr ''2024-01-01T00:00:00''),
           (''db_stats'', JArr dbs), (''toast_stats'', JArr toasts)]"

text \<open>A snapshot file of \<^verbatim>\<open>graphs.py\<close>: \<^verbatim>\<open>{"timestamp": ts, "stats": records}\<close>.\<close>

definition stats_doc :: "string \<Rightarrow> json list \<Rightarrow> json" where
  "stats_doc ts records = JObj [(''timestamp'', JStr ts), (''stats'', JArr records)]"

section \<open>What one file contributes\<close>

text \<open>
  The specification describes the result of a loader as the snapshots of the
  successfully parsed files. These two functions name the contribution of one file:
  the record it yields when it opens and its \<^verbatim>\<open>try\<close> block completes, nothing otherwise.
\<close>

definition file_data_point :: "(string \<Rightarrow> 'd option) \<Rightarrow> folder \<Rightarrow> string \<Rightarrow> 'd data_point option" where
  "file_data_point fromiso dir name =
     (case read_metrics_file fromiso dir name of Inl e \<Rightarrow> None | Inr dp \<Rightarrow> Some dp)"

definition file_snapshot ::
  "(string \<Rightarrow> 'd option) \<Rightarrow> (string \<Rightarrow> 'd) \<Rightarrow> folder \<Rightarrow> string \<Rightarrow> 'd snapshot option" where
  "file_snapshot fromiso now dir name =
     (case py_open dir name of
        Inl e \<Rightarrow> None
      | Inr f \<Rightarrow> (case parse_snapshot fromiso (now name) f of Inl e \<Rightarrow> None | Inr snap \<Rightarrow> Some snap))"

text \<open>The line a file makes the loader print, if any.\<close>

definition file_diagnostic :: "(string \<Rightarrow> 'd option) \<Rightarrow> folder \<Rightarrow> string \<Rightarrow> (string \<times> py_error) option" where
  "file_diagnostic fromiso dir name =
     (case read_metrics_file fromiso dir name of Inl e \<Rightarrow> Some (name, e) | Inr dp \<Rightarrow> None)"

section \<open>Invariants of the time series\<close>

text \<open>A mapping is well formed when every entity occurs once and its two sequences
  have equal length.\<close>

definition well_formed_series :: "'d timeseries \<Rightarrow> bool" where
  "well_formed_series ts \<longleftrightarrow>
     distinct (map fst ts) \<and> list_all (\<lambda>(k, tms, vals). length tms = length vals) ts"

text \<open>\<open>grows_to ts ts'\<close>: every entity of \<open>ts\<close> is still an entity of \<open>ts'\<close>, and its
  two sequences in \<open>ts\<close> are prefixes of its sequences in \<open>ts'\<close>.\<close>

definition grows_to :: "'d timeseries \<Rightarrow> 'd timeseries \<Rightarrow> bool" where
  "grows_to ts ts' \<longleftrightarrow>
     list_all (\<lambda>(k, tms, vals).
        case map_of ts' k of
          None \<Rightarrow> False
        | Some (tms', vals') \<Rightarrow> prefix tms tms' \<and> prefix vals vals') ts"

text \<open>A snapshot lacks a metric when its \<^verbatim>\<open>stats\<close> can be iterated and \<^verbatim>\<open>record.get(metric)\<close>
  is \<^verbatim>\<open>None\<close> for every entry.\<close>

definition lacks_metric :: "string \<Rightarrow> 'd snapshot \<Rightarrow> bool" where
  "lacks_metric metric snap =
     (case py_iter (stats snap) of
        Inl e \<Rightarrow> False
      | Inr records \<Rightarrow> list_all (\<lambda>r. py_get r metric JNull = Inr JNull) records)"

section \<open>Basic facts\<close>

lemma and_then_Inl [simp]: "and_then (Inl e) f = Inl e"
  by (simp add: and_then_def)

lemma and_then_Inr [simp]: "and_then (Inr v) f = f v"
  by (simp add: and_then_def)

lemma and_then_eq_Inr:
  "and_then r f = Inr y \<longleftrightarrow> (\<exists>v. r = Inr v \<and> f v = Inr y)"
  by (cases r) simp_all

section \<open>The derived DataPoint extractor\<close>

text \<open>
  Claim C1 (cache-hit ratio when \<^verbatim>\<open>blks_read\<close> is 0). The comment on line 25 announces
  that division by zero is avoided, but the default 1 is used only when the key is
  absent or no record was selected. For a selected record that carries \<^verbatim>\<open>blks_read = 0\<close>
  the divisor is 0: the division raises \<^verbatim>\<open>ZeroDivisionError\<close>, the handler of the file
  prints it, and the snapshot yields no DataPoint.
\<close>

theorem blks_read_zero_raises:
  "blks_ratio_of (Some (db_record ''postgres'' True h 0)) = Inl ZeroDivisionError \<and>
   make_data_point sample_fromiso (metrics_doc [db_record ''postgres'' True h 0] []) = Inl ZeroDivisionError \<and>
   load_metrics sample_fromiso [(''m1.json'', Content (metrics_doc [db_record ''postgres'' True h 0] []))]
     = ([], [(''m1.json'', ZeroDivisionError)])"
  by (simp add: blks_ratio_of_def get_or_def db_record_def py_truediv_def make_data_point_def
      metrics_doc_def sample_fromiso_def pg_stat_of_def pg_match_def load_metrics_def
      endswith_json_def read_metrics_file_def py_open_def)

subsection \<open>Selection of the \<^verbatim>\<open>postgres\<close> record\<close>

lemma pg_match_True:
  "pg_match db = Inr True \<longleftrightarrow>
     (\<exists>d v. py_getitem db ''datname'' = Inr d \<and> py_getitem d ''String'' = Inr (JStr ''postgres'')
        \<and> py_getitem d ''Valid'' = Inr v \<and> py_truthy v)"
  by (auto simp: pg_match_def and_then_eq_Inr split: if_splits)

lemma next_pg_Some:
  "next_pg dbs = Inr (Some db) \<Longrightarrow> db \<in> set dbs \<and> pg_match db = Inr True"
  by (induction dbs) (auto split: sum.splits bool.splits if_splits)

lemma next_pg_first:
  "list_all (\<lambda>db. pg_match db = Inr False) pre \<Longrightarrow> pg_match r = Inr True \<Longrightarrow>
     next_pg (pre @ r # post) = Inr (Some r)"
  by (induction pre) auto

lemma next_pg_none:
  "list_all (\<lambda>db. pg_match db = Inr False) dbs \<Longrightarrow> next_pg dbs = Inr None"
  by (induction dbs) auto

lemma blks_ratio_of_None: "blks_ratio_of None = Inr (JFloat 0)"
  by (simp add: blks_ratio_of_def get_or_def py_truediv_def)

lemma make_data_point_ratio:
  "make_data_point fromiso content = Inr dp \<Longrightarrow>
     \<exists>pg. pg_stat_of content = Inr pg \<and> blks_ratio_of pg = Inr (blks_ratio dp)"
  by (auto simp: make_data_point_def and_then_eq_Inr)

lemma make_data_point_toast:
  "make_data_point fromiso content = Inr dp \<Longrightarrow> toast_sum_of content = Inr (toast_total dp)"
  by (auto simp: make_data_point_def and_then_eq_Inr)

lemma make_data_point_timestamp:
  "make_data_point fromiso content = Inr dp \<Longrightarrow>
     \<exists>s. py_getitem content ''timestamp'' = Inr (JStr s) \<and> fromiso s = Some (data_point.timestamp dp)"
  apply (auto simp: make_data_point_def and_then_eq_Inr)
  subgoal for v by (cases v) (auto split: option.splits)
  done


lemma pg_match_db_record: "pg_match (db_record s v h r) = Inr (s = ''postgres'' \<and> v)"
  by (simp add: pg_match_def db_record_def)

lemma pg_stat_of_array:
  "py_getitem content ''db_stats'' = Inr (JArr dbs) \<Longrightarrow> pg_stat_of content = next_pg dbs"
  by (simp add: pg_stat_of_def)

text \<open>
  Claim C4 (two-part match). For a snapshot whose \<^verbatim>\<open>db_stats\<close> is an array: a record is
  selected only if its \<^verbatim>\<open>datname.String\<close> equals \<^verbatim>\<open>"postgres"\<close> and its \<^verbatim>\<open>datname.Valid\<close>
  is true; a record named \<^verbatim>\<open>"postgres"\<close> with \<^verbatim>\<open>Valid = false\<close> is never the selected one;
  and when the test is false for every record, no record is selected and the ratio is
  0 / 1 = 0.
\<close>

theorem pg_stat_selection:
  assumes "py_getitem content ''db_stats'' = Inr (JArr dbs)"
  shows "(\<forall>db. pg_stat_of content = Inr (Some db) \<longrightarrow>
            db \<in> set dbs \<and>
            (\<exists>d v. py_getitem db ''datname'' = Inr d \<and>
                   py_getitem d ''String'' = Inr (JStr ''postgres'') \<and>
                   py_getitem d ''Valid'' = Inr v \<and> py_truthy v)) \<and>
         (\<forall>db d. py_getitem db ''datname'' = Inr d \<and>
                 py_getitem d ''String'' = Inr (JStr ''postgres'') \<and>
                 py_getitem d ''Valid'' = Inr (JBool False) \<longrightarrow>
                 pg_stat_of content \<noteq> Inr (Some db)) \<and>
         (list_all (\<lambda>db. pg_match db = Inr False) dbs \<longrightarrow>
            pg_stat_of content = Inr None \<and>
            blks_ratio_of None = Inr (JFloat (0 / 1)) \<and>
            (\<forall>dp. make_data_point fromiso content = Inr dp \<longrightarrow> blks_ratio dp = JFloat 0))"
proof -
  have sel: "pg_stat_of content = next_pg dbs"
    using assms by (rule pg_stat_of_array)
  have first: "db \<in> set dbs \<and>
            (\<exists>d v. py_getitem db ''datname'' = Inr d \<and>
                   py_getitem d ''String'' = Inr (JStr ''postgres'') \<and>
                   py_getitem d ''Valid'' = Inr v \<and> py_truthy v)"
    if "pg_stat_of content = Inr (Some db)" for db
    using that next_pg_Some [of dbs db] by (simp add: sel pg_match_True)
  have second: "pg_stat_of content \<noteq> Inr (Some db)"
    if "py_getitem db ''datname'' = Inr d \<and>
        py_getitem d ''String'' = Inr (JStr ''postgres'') \<and>
        py_getitem d ''Valid'' = Inr (JBool False)" for db d
  proof
    assume "pg_stat_of content = Inr (Some db)"
    from first [OF this] that show False by auto
  qed
  have third: "pg_stat_of content = Inr None \<and>
            blks_ratio_of None = Inr (JFloat (0 / 1)) \<and>
            (\<forall>dp. make_data_point fromiso content = Inr dp \<longrightarrow> blks_ratio dp = JFloat 0)"
    if none: "list_all (\<lambda>db. pg_match db = Inr False) dbs"
  proof -
    have a: "pg_stat_of content = Inr None"
      using none by (simp add: sel next_pg_none)
    have b: "blks_ratio dp = JFloat 0" if "make_data_point fromiso content = Inr dp" for dp
      using make_data_point_ratio [OF that] by (auto simp: a blks_ratio_of_None)
    show ?thesis using a b by (simp add: blks_ratio_of_None)
  qed
  show ?thesis using first second third by blast
qed

theorem pg_stat_selection_witness:
  "pg_stat_of (metrics_doc [db_record ''postgres'' False 9 3, db_record ''template1'' True 4 2] []) = Inr None \<and>
   map_sum id blks_ratio
     (make_data_point sample_fromiso
        (metrics_doc [db_record ''postgres'' False 9 3, db_record ''template1'' True 4 2] []))
     = Inr (JFloat 0) \<and>
   pg_stat_of (metrics_doc [db_record ''postgres'' False 9 3, db_record ''postgres'' True 4 2] [])
     = Inr (Some (db_record ''postgres'' True 4 2))"
  using pg_stat_selection [of "metrics_doc [db_record ''postgres'' False 9 3, db_record ''template1'' True 4 2] []"
      "[db_record ''postgres'' False 9 3, db_record ''template1'' True 4 2]" sample_fromiso]
    pg_stat_selection [of "metrics_doc [db_record ''postgres'' False 9 3, db_record ''postgres'' True 4 2] []"
      "[db_record ''postgres'' False 9 3, db_record ''postgres'' True 4 2]" sample_fromiso]
  by (simp add: metrics_doc_def pg_match_db_record make_data_point_def sample_fromiso_def pg_stat_of_def
      blks_ratio_of_def get_or_def py_truediv_def toast_sum_of_def)

subsection \<open>The TOAST total\<close>

lemma sum_toast_ints:
  "list_all2 (\<lambda>t n. \<exists>kvs. t = JObj kvs \<and>
        (map_of kvs ''toast_size_bytes'' = Some (JInt n) \<or>
         map_of kvs ''toast_size_bytes'' = None \<and> n = 0)) ts ns \<Longrightarrow>
   sum_toast (IntN a) ts = Inr (IntN (a + sum_list ns))"
proof (induction ts arbitrary: a ns)
  case Nil
  then show ?case by simp
next
  case (Cons t ts)
  then obtain n ns' where ns: "ns = n # ns'" by (cases ns) auto
  with Cons.prems obtain kvs where t: "t = JObj kvs"
    and n: "map_of kvs ''toast_size_bytes'' = Some (JInt n) \<or>
            map_of kvs ''toast_size_bytes'' = None \<and> n = 0"
    and rest: "list_all2 (\<lambda>t n. \<exists>kvs. t = JObj kvs \<and>
        (map_of kvs ''toast_size_bytes'' = Some (JInt n) \<or>
         map_of kvs ''toast_size_bytes'' = None \<and> n = 0)) ts ns'"
    by auto
  from n have "py_get t ''toast_size_bytes'' (JInt 0) = Inr (JInt n)"
    by (auto simp: t)
  then show ?case
    using Cons.IH [OF rest, of "a + n"] by (simp add: ns add_to_def add.assoc)
qed

text \<open>
  Claim C5 (TOAST total). When \<^verbatim>\<open>toast_stats\<close> is an array of objects whose
  \<^verbatim>\<open>toast_size_bytes\<close> are integers (an entry without the field counts 0), or is absent,
  the sum succeeds and \<^verbatim>\<open>toast_total\<close> of the DataPoint is the sum of the sizes; the empty
  array sums to 0. The instances of the specification, 100 + 50 = 150 and the empty array,
  are evaluated in the witness.
\<close>

theorem toast_total_sum:
  assumes "py_get content ''toast_stats'' (JArr []) = Inr (JArr ts)"
    and "list_all2 (\<lambda>t n. \<exists>kvs. t = JObj kvs \<and>
        (map_of kvs ''toast_size_bytes'' = Some (JInt n) \<or>
         map_of kvs ''toast_size_bytes'' = None \<and> n = 0)) ts ns"
  shows "toast_sum_of content = Inr (JInt (sum_list ns)) \<and>
         (\<forall>dp. make_data_point fromiso content = Inr dp \<longrightarrow> toast_total dp = JInt (sum_list ns))"
proof -
  have total: "toast_sum_of content = Inr (JInt (sum_list ns))"
    using assms(1) sum_toast_ints [OF assms(2), of 0] by (simp add: toast_sum_of_def)
  have "toast_total dp = JInt (sum_list ns)" if "make_data_point fromiso content = Inr dp" for dp
    using make_data_point_toast [OF that] total by simp
  with total show ?thesis by blast
qed

theorem toast_total_sum_witness:
  "map_sum id toast_total
     (make_data_point sample_fromiso
        (metrics_doc [] [JObj [(''toast_size_bytes'', JInt 100)], JObj [(''toast_size_bytes'', JInt 50)]]))
     = Inr (JInt 150) \<and>
   map_sum id toast_total (make_data_point sample_fromiso (metrics_doc [] [])) = Inr (JInt 0) \<and>
   map_sum id toast_total
     (make_data_point sample_fromiso
        (JObj [(''timestamp'', JStr ''2024-01-01T00:00:00''), (''db_stats'', JArr [])]))
     = Inr (JInt 0)"
  using toast_total_sum [of "metrics_doc [] [JObj [(''toast_size_bytes'', JInt 100)], JObj [(''toast_size_bytes'', JInt 50)]]"
      "[JObj [(''toast_size_bytes'', JInt 100)], JObj [(''toast_size_bytes'', JInt 50)]]" "[100, 50]" sample_fromiso]
    toast_total_sum [of "metrics_doc [] []" "[]" "[]" sample_fromiso]
    toast_total_sum [of "JObj [(''timestamp'', JStr ''2024-01-01T00:00:00''), (''db_stats'', JArr [])]" "[]" "[]" sample_fromiso]
  by (simp add: metrics_doc_def make_data_point_def sample_fromiso_def pg_stat_of_def
      blks_ratio_of_def get_or_def py_truediv_def toast_sum_of_def add_to_def)


subsection \<open>Several matching records\<close>

text \<open>
  Claim C10 (first match wins). When the test is false for every record before \<open>r\<close> and
  true for \<open>r\<close>, the record \<open>r\<close> is the selected one whatever follows it, later records
  that pass the test included, and the ratio is computed from the \<^verbatim>\<open>blks_hit\<close> and
  \<^verbatim>\<open>blks_read\<close> of \<open>r\<close> alone (with the defaults 0 and 1 for absent fields).
\<close>

theorem first_postgres_record_wins:
  assumes "py_getitem content ''db_stats'' = Inr (JArr (pre @ r # post))"
    and "list_all (\<lambda>db. pg_match db = Inr False) pre"
    and "pg_match r = Inr True"
  shows "pg_stat_of content = Inr (Some r) \<and>
         (\<exists>kvs. r = JObj kvs \<and>
            blks_ratio_of (Some r) =
              py_truediv (case map_of kvs ''blks_hit'' of None \<Rightarrow> JInt 0 | Some h \<Rightarrow> h)
                         (case map_of kvs ''blks_read'' of None \<Rightarrow> JInt 1 | Some n \<Rightarrow> n)) \<and>
         (\<forall>dp. make_data_point fromiso content = Inr dp \<longrightarrow>
               blks_ratio_of (Some r) = Inr (blks_ratio dp))"
proof -
  have sel: "pg_stat_of content = Inr (Some r)"
    using assms by (simp add: pg_stat_of_array next_pg_first)
  obtain d where "py_getitem r ''datname'' = Inr d"
    using assms(3) by (auto simp: pg_match_True)
  then obtain kvs where r: "r = JObj kvs" and "kvs \<noteq> []"
    by (cases r) (force split: option.splits)+
  then have ratio: "blks_ratio_of (Some r) =
      py_truediv (case map_of kvs ''blks_hit'' of None \<Rightarrow> JInt 0 | Some h \<Rightarrow> h)
                 (case map_of kvs ''blks_read'' of None \<Rightarrow> JInt 1 | Some n \<Rightarrow> n)"
    by (simp add: blks_ratio_of_def get_or_def split: option.splits)
  have "blks_ratio_of (Some r) = Inr (blks_ratio dp)"
    if "make_data_point fromiso content = Inr dp" for dp
    using make_data_point_ratio [OF that] by (simp add: sel)
  with sel r ratio show ?thesis by blast
qed

theorem first_postgres_record_wins_witness:
  "pg_stat_of (metrics_doc [db_record ''template1'' True 1 1, db_record ''postgres'' True 6 3,
                            db_record ''postgres'' True 50 10] [])
     = Inr (Some (db_record ''postgres'' True 6 3)) \<and>
   map_sum id blks_ratio
     (make_data_point sample_fromiso
        (metrics_doc [db_record ''template1'' True 1 1, db_record ''postgres'' True 6 3,
                      db_record ''postgres'' True 50 10] []))
     = Inr (JFloat 2)"
proof -
  have doc: "py_getitem (metrics_doc [db_record ''template1'' True 1 1, db_record ''postgres'' True 6 3,
                            db_record ''postgres'' True 50 10] []) ''db_stats''
      = Inr (JArr ([db_record ''template1'' True 1 1] @ db_record ''postgres'' True 6 3
                     # [db_record ''postgres'' True 50 10]))"
    by (simp add: metrics_doc_def)
  have before: "list_all (\<lambda>db. pg_match db = Inr False) [db_record ''template1'' True 1 1]"
    by (simp add: pg_match_db_record)
  have hit: "pg_match (db_record ''postgres'' True 6 3) = Inr True"
    by (simp add: pg_match_db_record)
  have ratio: "blks_ratio_of (Some (db_record ''postgres'' True 6 3)) = Inr (JFloat 2)"
    by (simp add: blks_ratio_of_def get_or_def py_truediv_def db_record_def)
  have dp: "\<exists>dp. make_data_point sample_fromiso
        (metrics_doc [db_record ''template1'' True 1 1, db_record ''postgres'' True 6 3,
                      db_record ''postgres'' True 50 10] []) = Inr dp"
    by (simp add: metrics_doc_def make_data_point_def sample_fromiso_def pg_stat_of_def
        pg_match_db_record ratio toast_sum_of_def)
  from first_postgres_record_wins [OF doc before hit, of sample_fromiso] ratio dp
  show ?thesis by auto
qed

section \<open>The two loading loops\<close>

lemma metrics_loop_eq:
  "metrics_loop fromiso dir (data, printed) names =
     (data @ List.map_filter (file_data_point fromiso dir) (filter endswith_json names),
      printed @ List.map_filter (file_diagnostic fromiso dir) (filter endswith_json names))"
proof (induction names arbitrary: data printed)
  case Nil
  then show ?case by (simp add: List.map_filter_simps)
next
  case (Cons n names)
  show ?case
  proof (cases "endswith_json n")
    case False
    then show ?thesis by (simp add: Cons.IH)
  next
    case True
    then show ?thesis
      by (cases "read_metrics_file fromiso dir n")
        (simp_all add: Cons.IH List.map_filter_simps file_data_point_def file_diagnostic_def)
  qed
qed

lemma load_metrics_data:
  "fst (load_metrics fromiso dir) =
     List.map_filter (file_data_point fromiso dir) (sort (filter endswith_json (map fst dir)))"
  by (simp add: load_metrics_def metrics_loop_eq filter_sort)

lemma snapshots_loop_Inr:
  "snapshots_loop fromiso now dir (snaps, printed) names = Inr (snaps', printed') \<Longrightarrow>
     snaps' = snaps @ List.map_filter (file_snapshot fromiso now dir) names"
proof (induction names arbitrary: snaps printed)
  case Nil
  then show ?case by (simp add: List.map_filter_simps)
next
  case (Cons n names)
  from Cons.prems show ?case
    by (auto simp: List.map_filter_simps file_snapshot_def split: sum.splits dest!: Cons.IH)
qed

lemma snapshots_loop_total:
  "list_all (\<lambda>n. py_open dir n \<noteq> Inl OSError) names \<Longrightarrow>
     \<exists>res. snapshots_loop fromiso now dir (snaps, printed) names = Inr res"
proof (induction names arbitrary: snaps printed)
  case Nil
  then show ?case by simp
next
  case (Cons n names)
  then show ?case
    by (auto simp: py_open_def split: sum.splits option.splits disk_file.splits)
qed


lemma load_snapshots_Inr:
  "load_snapshots fromiso now dir = Inr (snaps, printed) \<Longrightarrow>
     snaps = List.map_filter (file_snapshot fromiso now dir)
               (sort (filter glob_stats_json (map fst dir)))"
  unfolding load_snapshots_def by (drule snapshots_loop_Inr) simp

lemma load_snapshots_total:
  assumes "list_all (\<lambda>n. py_open dir n \<noteq> Inl OSError) (filter glob_stats_json (map fst dir))"
  shows "\<exists>res. load_snapshots fromiso now dir = Inr res"
proof -
  from assms
  have "list_all (\<lambda>n. py_open dir n \<noteq> Inl OSError) (sort (filter glob_stats_json (map fst dir)))"
    by (simp add: list_all_iff)
  then show ?thesis
    unfolding load_snapshots_def by (rule snapshots_loop_total)
qed

text \<open>
  Claim C7 (order of the collection). The collection a loader returns is the list of the
  contributions of the matching file names taken in sorted order, a file that fails
  contributing nothing: no placeholder stands for it. \<^verbatim>\<open>load_metrics\<close> always returns;
  \<^verbatim>\<open>load_snapshots\<close> returns whenever every matching file can be opened.
\<close>

theorem loaders_keep_sorted_order:
  "fst (load_metrics fromiso dir) =
     List.map_filter (file_data_point fromiso dir) (sort (filter endswith_json (map fst dir))) \<and>
   (\<forall>snaps printed. load_snapshots fromiso now dir = Inr (snaps, printed) \<longrightarrow>
      snaps = List.map_filter (file_snapshot fromiso now dir)
                (sort (filter glob_stats_json (map fst dir)))) \<and>
   (list_all (\<lambda>n. py_open dir n \<noteq> Inl OSError) (filter glob_stats_json (map fst dir)) \<longrightarrow>
      (\<exists>res. load_snapshots fromiso now dir = Inr res))"
  using load_metrics_data [of fromiso dir] load_snapshots_Inr [of fromiso now dir]
    load_snapshots_total [of dir fromiso now]
  by blast

theorem loaders_keep_sorted_order_witness:
  "map_sum id fst (load_snapshots sample_fromiso sample_now
     [(''stats_2.json'', Content (stats_doc ''2024-01-02T00:00:00'' [])),
      (''stats_10.json'', Undecodable),
      (''notes.txt'', Unopenable),
      (''stats_1.json'', Content (stats_doc ''2024-01-01T00:00:00'' []))])
   = Inr [\<lparr> snapshot.timestamp = ''2024-01-01T00:00:00'', stats = JArr [] \<rparr>,
          \<lparr> snapshot.timestamp = ''2024-01-02T00:00:00'', stats = JArr [] \<rparr>] \<and>
   map blks_ratio (fst (load_metrics sample_fromiso
     [(''b.json'', Content (metrics_doc [db_record ''postgres'' True 6 3] [])),
      (''c.json'', Undecodable),
      (''a.json'', Content (metrics_doc [db_record ''postgres'' True 1 1] []))]))
   = [JFloat 1, JFloat 2]"
proof -
  let ?dir = "[(''stats_2.json'', Content (stats_doc ''2024-01-02T00:00:00'' [])),
      (''stats_10.json'', Undecodable),
      (''notes.txt'', Unopenable),
      (''stats_1.json'', Content (stats_doc ''2024-01-01T00:00:00'' []))]"
  let ?mdir = "[(''b.json'', Content (metrics_doc [db_record ''postgres'' True 6 3] [])),
      (''c.json'', Undecodable),
      (''a.json'', Content (metrics_doc [db_record ''postgres'' True 1 1] []))]"
  have names: "sort (filter glob_stats_json (map fst ?dir))
      = [''stats_1.json'', ''stats_10.json'', ''stats_2.json'']"
    by (simp add: glob_stats_json_def endswith_json_def)
  have opens: "list_all (\<lambda>n. py_open ?dir n \<noteq> Inl OSError) (filter glob_stats_json (map fst ?dir))"
    by (simp add: glob_stats_json_def endswith_json_def py_open_def)
  have mnames: "sort (filter endswith_json (map fst ?mdir)) = [''a.json'', ''b.json'', ''c.json'']"
    by (simp add: endswith_json_def)
  have snaps: "List.map_filter (file_snapshot sample_fromiso sample_now ?dir)
        [''stats_1.json'', ''stats_10.json'', ''stats_2.json'']
      = [\<lparr> snapshot.timestamp = ''2024-01-01T00:00:00'', stats = JArr [] \<rparr>,
         \<lparr> snapshot.timestamp = ''2024-01-02T00:00:00'', stats = JArr [] \<rparr>]"
    by (simp add: List.map_filter_simps file_snapshot_def py_open_def parse_snapshot_def
        make_snapshot_def stats_doc_def sample_fromiso_def)
  have ratio1: "blks_ratio_of (Some (db_record ''postgres'' True 1 1)) = Inr (JFloat 1)"
    by (simp add: blks_ratio_of_def get_or_def db_record_def py_truediv_def)
  have ratio2: "blks_ratio_of (Some (db_record ''postgres'' True 6 3)) = Inr (JFloat 2)"
    by (simp add: blks_ratio_of_def get_or_def db_record_def py_truediv_def)
  have points: "map blks_ratio (List.map_filter (file_data_point sample_fromiso ?mdir)
        [''a.json'', ''b.json'', ''c.json'']) = [JFloat 1, JFloat 2]"
    by (simp add: List.map_filter_simps file_data_point_def py_open_def read_metrics_file_def
        make_data_point_def metrics_doc_def pg_stat_of_def pg_match_db_record toast_sum_of_def
        sample_fromiso_def ratio1 ratio2)
  from loaders_keep_sorted_order [of sample_fromiso ?dir sample_now] opens
  obtain res where res: "load_snapshots sample_fromiso sample_now ?dir = Inr res"
    and "fst res = List.map_filter (file_snapshot sample_fromiso sample_now ?dir)
                     (sort (filter glob_stats_json (map fst ?dir)))"
    by (metis prod.collapse)
  then have first: "map_sum id fst (load_snapshots sample_fromiso sample_now ?dir)
      = Inr [\<lparr> snapshot.timestamp = ''2024-01-01T00:00:00'', stats = JArr [] \<rparr>,
             \<lparr> snapshot.timestamp = ''2024-01-02T00:00:00'', stats = JArr [] \<rparr>]"
    by (simp only: names snaps res map_sum.simps)
  from loaders_keep_sorted_order [of sample_fromiso ?mdir sample_now]
  have "fst (load_metrics sample_fromiso ?mdir)
      = List.map_filter (file_data_point sample_fromiso ?mdir) (sort (filter endswith_json (map fst ?mdir)))"
    by (rule conjunct1)
  then have second: "map blks_ratio (fst (load_metrics sample_fromiso ?mdir)) = [JFloat 1, JFloat 2]"
    by (simp only: mnames points)
  from first second show ?thesis by (rule conjI)
qed

subsection \<open>Errors and timestamps in the loops\<close>

text \<open>
  Claim C3 (no per-file error leaves the loader). \<^verbatim>\<open>load_metrics\<close> opens the file inside
  its \<^verbatim>\<open>try\<close> block and prints every failure. \<^verbatim>\<open>load_snapshots\<close> opens the file in the
  \<^verbatim>\<open>with\<close> statement that encloses the \<^verbatim>\<open>try\<close> block: when a file matching the pattern
  cannot be opened, the \<^verbatim>\<open>OSError\<close> leaves the function and the remaining files are not
  read.
\<close>

theorem open_error_leaves_load_snapshots:
  "load_snapshots fromiso now
     [(''stats_1.json'', Unopenable), (''stats_2.json'', Content c)] = Inl OSError \<and>
   load_metrics fromiso [(''stats_1.json'', Unopenable)] = ([], [(''stats_1.json'', OSError)])"
  by (simp add: load_snapshots_def load_metrics_def glob_stats_json_def endswith_json_def
      py_open_def read_metrics_file_def)

lemma load_metrics_diagnostics:
  "snd (load_metrics fromiso dir) =
     List.map_filter (file_diagnostic fromiso dir) (sort (filter endswith_json (map fst dir)))"
  by (simp add: load_metrics_def metrics_loop_eq filter_sort)

text \<open>
  Claim C2 (timestamp fallback), as the code has it. A timestamp string that the parser
  rejects makes \<^verbatim>\<open>load_snapshots\<close> print the \<^verbatim>\<open>ValueError\<close> and drop the file; in
  \<^verbatim>\<open>load_metrics\<close> an absent timestamp drops the file as well (\<^verbatim>\<open>KeyError\<close>).
\<close>

theorem malformed_timestamp_excludes_file:
  "load_snapshots sample_fromiso sample_now
     [(''stats_1.json'', Content (stats_doc ''yesterday'' []))]
     = Inr ([], [(''stats_1.json'', ValueError)]) \<and>
   load_metrics sample_fromiso
     [(''m1.json'', Content (JObj [(''db_stats'', JArr []), (''toast_stats'', JArr [])]))]
     = ([], [(''m1.json'', KeyError)])"
  by (simp add: load_snapshots_def load_metrics_def glob_stats_json_def endswith_json_def
      py_open_def read_metrics_file_def parse_snapshot_def make_snapshot_def stats_doc_def
      sample_fromiso_def make_data_point_def)

text \<open>
  Claim C2, amended. For a file that opens and holds a JSON object, one turn of the loop
  of \<^verbatim>\<open>load_snapshots\<close> appends a snapshot with the parsed timestamp when the field is a
  string the parser accepts, appends a snapshot with the clock reading when the field is
  absent or not a string, and appends a printed \<^verbatim>\<open>ValueError\<close> and no snapshot when the
  field is a string the parser rejects. One turn of the loop of \<^verbatim>\<open>load_metrics\<close> appends
  a printed error and no DataPoint when the field is absent or rejected; a DataPoint it
  does append carries the parsed timestamp.
\<close>

theorem timestamp_handling:
  assumes "py_open dir name = Inr (Content (JObj kvs))"
  shows "(\<forall>s t. map_of kvs ''timestamp'' = Some (JStr s) \<and> fromiso s = Some t \<longrightarrow>
            snapshots_loop fromiso now dir (snaps, printed) (name # rest) =
            snapshots_loop fromiso now dir
              (snaps @ [\<lparr> snapshot.timestamp = t,
                          stats = (case map_of kvs ''stats'' of None \<Rightarrow> JArr [] | Some st \<Rightarrow> st) \<rparr>],
               printed) rest) \<and>
         (map_of kvs ''timestamp'' = None \<or>
            (\<exists>v. map_of kvs ''timestamp'' = Some v \<and> (\<forall>s. v \<noteq> JStr s)) \<longrightarrow>
            snapshots_loop fromiso now dir (snaps, printed) (name # rest) =
            snapshots_loop fromiso now dir
              (snaps @ [\<lparr> snapshot.timestamp = now name,
                          stats = (case map_of kvs ''stats'' of None \<Rightarrow> JArr [] | Some st \<Rightarrow> st) \<rparr>],
               printed) rest) \<and>
         (\<forall>s. map_of kvs ''timestamp'' = Some (JStr s) \<and> fromiso s = None \<longrightarrow>
            snapshots_loop fromiso now dir (snaps, printed) (name # rest) =
            snapshots_loop fromiso now dir (snaps, printed @ [(name, ValueError)]) rest) \<and>
         (endswith_json name \<and> map_of kvs ''timestamp'' = None \<longrightarrow>
            metrics_loop fromiso dir (data, printed) (name # rest) =
            metrics_loop fromiso dir (data, printed @ [(name, KeyError)]) rest) \<and>
         (\<forall>s. endswith_json name \<and> map_of kvs ''timestamp'' = Some (JStr s) \<and> fromiso s = None \<longrightarrow>
            metrics_loop fromiso dir (data, printed) (name # rest) =
            metrics_loop fromiso dir (data, printed @ [(name, ValueError)]) rest) \<and>
         (\<forall>dp. read_metrics_file fromiso dir name = Inr dp \<longrightarrow>
            (\<exists>s. map_of kvs ''timestamp'' = Some (JStr s) \<and>
                 fromiso s = Some (data_point.timestamp dp)))"
proof -
  have parsed: "snapshots_loop fromiso now dir (snaps, printed) (name # rest) =
            snapshots_loop fromiso now dir
              (snaps @ [\<lparr> snapshot.timestamp = t,
                          stats = (case map_of kvs ''stats'' of None \<Rightarrow> JArr [] | Some st \<Rightarrow> st) \<rparr>],
               printed) rest"
    if "map_of kvs ''timestamp'' = Some (JStr s) \<and> fromiso s = Some t" for s t
    using assms that
    by (simp add: parse_snapshot_def make_snapshot_def split: option.splits)
  have clock: "snapshots_loop fromiso now dir (snaps, printed) (name # rest) =
            snapshots_loop fromiso now dir
              (snaps @ [\<lparr> snapshot.timestamp = now name,
                          stats = (case map_of kvs ''stats'' of None \<Rightarrow> JArr [] | Some st \<Rightarrow> st) \<rparr>],
               printed) rest"
    if "map_of kvs ''timestamp'' = None \<or>
            (\<exists>v. map_of kvs ''timestamp'' = Some v \<and> (\<forall>s. v \<noteq> JStr s))"
    using assms that
    by (auto simp: parse_snapshot_def make_snapshot_def split: option.splits json.splits)
  have rejected: "snapshots_loop fromiso now dir (snaps, printed) (name # rest) =
            snapshots_loop fromiso now dir (snaps, printed @ [(name, ValueError)]) rest"
    if "map_of kvs ''timestamp'' = Some (JStr s) \<and> fromiso s = None" for s
    using assms that
    by (simp add: parse_snapshot_def make_snapshot_def)
  have absent_m: "metrics_loop fromiso dir (data, printed) (name # rest) =
            metrics_loop fromiso dir (data, printed @ [(name, KeyError)]) rest"
    if "endswith_json name \<and> map_of kvs ''timestamp'' = None"
    using assms that
    by (simp add: read_metrics_file_def make_data_point_def)
  have rejected_m: "metrics_loop fromiso dir (data, printed) (name # rest) =
            metrics_loop fromiso dir (data, printed @ [(name, ValueError)]) rest"
    if "endswith_json name \<and> map_of kvs ''timestamp'' = Some (JStr s) \<and> fromiso s = None" for s
    using assms that
    by (simp add: read_metrics_file_def make_data_point_def)
  have kept_m: "\<exists>s. map_of kvs ''timestamp'' = Some (JStr s) \<and>
                 fromiso s = Some (data_point.timestamp dp)"
    if "read_metrics_file fromiso dir name = Inr dp" for dp
  proof -
    from that assms have "make_data_point fromiso (JObj kvs) = Inr dp"
      by (simp add: read_metrics_file_def)
    from make_data_point_timestamp [OF this] show ?thesis
      by (auto split: option.splits)
  qed
  show ?thesis
    using parsed clock rejected absent_m rejected_m kept_m by blast
qed


theorem timestamp_handling_witness:
  "load_snapshots sample_fromiso sample_now
     [(''stats_1.json'', Content (JObj [(''stats'', JArr [])]))]
     = Inr ([\<lparr> snapshot.timestamp = ''now'', stats = JArr [] \<rparr>], []) \<and>
   load_snapshots sample_fromiso sample_now
     [(''stats_1.json'', Content (JObj [(''timestamp'', JInt 1704067200), (''stats'', JArr [])]))]
     = Inr ([\<lparr> snapshot.timestamp = ''now'', stats = JArr [] \<rparr>], []) \<and>
   load_snapshots sample_fromiso sample_now
     [(''stats_1.json'', Content (JObj [(''timestamp'', JStr ''2024-01-02T00:00:00'')]))]
     = Inr ([\<lparr> snapshot.timestamp = ''2024-01-02T00:00:00'', stats = JArr [] \<rparr>], [])"
proof -
  let ?absent = "[(''stats'', JArr [])]"
  let ?number = "[(''timestamp'', JInt 1704067200), (''stats'', JArr [])]"
  let ?valid = "[(''timestamp'', JStr ''2024-01-02T00:00:00'')]"
  have names: "sort (filter glob_stats_json (map fst [(''stats_1.json'', Content c)])) = [''stats_1.json'']" for c
    by (simp add: glob_stats_json_def endswith_json_def)
  have opens: "py_open [(''stats_1.json'', Content (JObj kvs))] ''stats_1.json'' = Inr (Content (JObj kvs))" for kvs
    by (simp add: py_open_def)
  note step = timestamp_handling [OF opens, of _ sample_fromiso sample_now "[]" "[]" "[]"]
  have a: "map_of ?absent ''timestamp'' = None \<or>
            (\<exists>v. map_of ?absent ''timestamp'' = Some v \<and> (\<forall>s. v \<noteq> JStr s))"
    by simp
  have b: "map_of ?number ''timestamp'' = None \<or>
            (\<exists>v. map_of ?number ''timestamp'' = Some v \<and> (\<forall>s. v \<noteq> JStr s))"
    by simp
  have c: "map_of ?valid ''timestamp'' = Some (JStr ''2024-01-02T00:00:00'') \<and>
      sample_fromiso ''2024-01-02T00:00:00'' = Some ''2024-01-02T00:00:00''"
    by (simp add: sample_fromiso_def)
  from step [of ?absent] a
  have first: "load_snapshots sample_fromiso sample_now [(''stats_1.json'', Content (JObj ?absent))]
     = Inr ([\<lparr> snapshot.timestamp = ''now'', stats = JArr [] \<rparr>], [])"
    by (simp only: load_snapshots_def names) (simp add: sample_now_def del: snapshots_loop.simps(2))
  from step [of ?number] b
  have second: "load_snapshots sample_fromiso sample_now [(''stats_1.json'', Content (JObj ?number))]
     = Inr ([\<lparr> snapshot.timestamp = ''now'', stats = JArr [] \<rparr>], [])"
    by (simp only: load_snapshots_def names) (simp add: sample_now_def del: snapshots_loop.simps(2))
  from step [of ?valid] c
  have third: "load_snapshots sample_fromiso sample_now [(''stats_1.json'', Content (JObj ?valid))]
     = Inr ([\<lparr> snapshot.timestamp = ''2024-01-02T00:00:00'', stats = JArr [] \<rparr>], [])"
    by (simp only: load_snapshots_def names) (simp del: snapshots_loop.simps(2))
  from first second third show ?thesis by simp
qed

section \<open>Properties of the generic metric extractor\<close>

lemma map_fst_series_append: "map fst (series_append k t v ts) = map fst ts"
  by (induction ts) auto

lemma map_of_series_append:
  "map_of (series_append k t v ts) k' =
     (if k' = k then map_option (\<lambda>(tms, vals). (tms @ [t], vals @ [v])) (map_of ts k)
      else map_of ts k')"
  by (induction ts) auto

lemma parallel_series_append:
  "list_all (\<lambda>(k, tms, vals). length tms = length vals) ts \<Longrightarrow>
     list_all (\<lambda>(k, tms, vals). length tms = length vals) (series_append k t v ts)"
  by (induction ts) auto

lemma well_formed_series_append:
  "well_formed_series ts \<Longrightarrow> well_formed_series (series_append k t v ts)"
  unfolding well_formed_series_def
  by (simp add: map_fst_series_append parallel_series_append)

lemma well_formed_series_new:
  "well_formed_series ts \<Longrightarrow> map_of ts k = None \<Longrightarrow> well_formed_series (ts @ [(k, [], [])])"
  unfolding well_formed_series_def by (auto simp: map_of_eq_None_iff)

lemma grows_to_iff:
  "distinct (map fst ts) \<Longrightarrow>
   grows_to ts ts' \<longleftrightarrow>
     (\<forall>k tms vals. map_of ts k = Some (tms, vals) \<longrightarrow>
        (\<exists>tms' vals'. map_of ts' k = Some (tms', vals') \<and> prefix tms tms' \<and> prefix vals vals'))"
  unfolding grows_to_def list_all_iff
  by (fastforce split: option.splits dest: map_of_SomeD)

lemma grows_to_refl: "distinct (map fst ts) \<Longrightarrow> grows_to ts ts"
  by (simp add: grows_to_iff)

lemma grows_to_trans:
  "distinct (map fst ts) \<Longrightarrow> distinct (map fst ts') \<Longrightarrow>
     grows_to ts ts' \<Longrightarrow> grows_to ts' ts'' \<Longrightarrow> grows_to ts ts''"
  unfolding grows_to_iff
  by (meson prefix_order.trans)

lemma grows_to_series_append:
  "distinct (map fst ts) \<Longrightarrow> grows_to ts (series_append k t v ts)"
  by (auto simp: grows_to_iff map_of_series_append)

lemma grows_to_new:
  "distinct (map fst ts) \<Longrightarrow> map_of ts k = None \<Longrightarrow> grows_to ts (ts @ [(k, [], [])])"
  by (auto simp: grows_to_iff map_add_def split: option.splits)

lemma add_record_grows:
  assumes "well_formed_series ts" and "add_record t metric ts record = Inr ts'"
  shows "well_formed_series ts' \<and> grows_to ts ts'"
proof -
  have d: "distinct (map fst ts)"
    using assms(1) by (simp add: well_formed_series_def)
  from assms(2) obtain dbname v where
    v: "py_get record metric JNull = Inr v"
    and rest: "(if v = JNull then Inr ts
       else and_then (py_hash_key dbname) (\<lambda>k.
           Inr (series_append k t v
                  (if map_of ts k = None then ts @ [(k, [], [])] else ts)))) = Inr ts'"
    by (auto simp: add_record_def and_then_eq_Inr)
  show ?thesis
  proof (cases "v = JNull")
    case True
    with rest assms(1) d show ?thesis by (simp add: grows_to_refl)
  next
    case False
    with rest obtain k where
      ts': "ts' = series_append k t v (if map_of ts k = None then ts @ [(k, [], [])] else ts)"
      by (auto simp: and_then_eq_Inr)
    show ?thesis
    proof (cases "map_of ts k = None")
      case True
      have w: "well_formed_series (ts @ [(k, [], [])])"
        using assms(1) True by (rule well_formed_series_new)
      then have d': "distinct (map fst (ts @ [(k, [], [])]))"
        by (simp add: well_formed_series_def)
      have "grows_to ts (series_append k t v (ts @ [(k, [], [])]))"
        using d d' grows_to_new [OF d True] grows_to_series_append [OF d']
        by (rule grows_to_trans)
      with w True ts' show ?thesis
        by (simp add: well_formed_series_append)
    next
      case False
      with ts' assms(1) d show ?thesis
        by (simp add: well_formed_series_append grows_to_series_append)
    qed
  qed
qed

lemma records_loop_grows:
  "well_formed_series ts \<Longrightarrow> records_loop t metric ts records = Inr ts' \<Longrightarrow>
     well_formed_series ts' \<and> grows_to ts ts'"
proof (induction records arbitrary: ts)
  case Nil
  then show ?case by (simp add: grows_to_refl well_formed_series_def)
next
  case (Cons r records)
  from Cons.prems(2) obtain ts1 where
    one: "add_record t metric ts r = Inr ts1" and more: "records_loop t metric ts1 records = Inr ts'"
    by (auto simp: and_then_eq_Inr)
  from add_record_grows [OF Cons.prems(1) one]
  have w1: "well_formed_series ts1" and g1: "grows_to ts ts1" by simp_all
  from Cons.IH [OF w1 more]
  have w': "well_formed_series ts'" and g': "grows_to ts1 ts'" by simp_all
  from Cons.prems(1) w1 have "grows_to ts ts'"
    using g1 g' by (auto simp: well_formed_series_def intro: grows_to_trans)
  with w' show ?case by simp
qed

lemma timeseries_loop_grows:
  "well_formed_series ts \<Longrightarrow> timeseries_loop metric ts snaps = Inr ts' \<Longrightarrow>
     well_formed_series ts' \<and> grows_to ts ts'"
proof (induction snaps arbitrary: ts)
  case Nil
  then show ?case by (simp add: grows_to_refl well_formed_series_def)
next
  case (Cons snap snaps)
  from Cons.prems(2) obtain records ts1 where
    one: "records_loop (snapshot.timestamp snap) metric ts records = Inr ts1"
    and more: "timeseries_loop metric ts1 snaps = Inr ts'"
    by (auto simp: and_then_eq_Inr)
  from records_loop_grows [OF Cons.prems(1) one]
  have w1: "well_formed_series ts1" and g1: "grows_to ts ts1" by simp_all
  from Cons.IH [OF w1 more]
  have w': "well_formed_series ts'" and g': "grows_to ts1 ts'" by simp_all
  from Cons.prems(1) w1 have "grows_to ts ts'"
    using g1 g' by (auto simp: well_formed_series_def intro: grows_to_trans)
  with w' show ?case by simp
qed


text \<open>
  Claim C6 (parallel sequences). In every mapping \<^verbatim>\<open>build_timeseries\<close> returns, each
  entity occurs once and its timestamps and values have equal length. Every turn of the
  inner loop, and so every run of the loops from any well-formed intermediate mapping,
  keeps the sequences already stored as prefixes of the new ones: elements are added at
  the end only.
\<close>

theorem timeseries_parallel_append_only:
  "(\<forall>ts. build_timeseries snapshots metric = Inr ts \<longrightarrow>
      distinct (map fst ts) \<and> (\<forall>(k, tms, vals) \<in> set ts. length tms = length vals)) \<and>
   (\<forall>ts'. well_formed_series ts0 \<and> add_record t metric ts0 record = Inr ts' \<longrightarrow>
      well_formed_series ts' \<and> grows_to ts0 ts') \<and>
   (\<forall>ts'. well_formed_series ts0 \<and> timeseries_loop metric ts0 snaps = Inr ts' \<longrightarrow>
      well_formed_series ts' \<and> grows_to ts0 ts')"
proof -
  have empty: "well_formed_series ([] :: 'a timeseries)"
    by (simp add: well_formed_series_def)
  have "distinct (map fst ts) \<and> (\<forall>(k, tms, vals) \<in> set ts. length tms = length vals)"
    if "build_timeseries snapshots metric = Inr ts" for ts
    using timeseries_loop_grows [OF empty, of metric snapshots ts] that
    by (simp add: build_timeseries_def well_formed_series_def list_all_iff)
  then show ?thesis
    using add_record_grows [of ts0 t metric "record"] timeseries_loop_grows [of ts0 metric snaps]
    by blast
qed

theorem timeseries_parallel_append_only_witness:
  "build_timeseries
     [\<lparr> snapshot.timestamp = ''2024-01-01T00:00:00'',
        stats = JArr [JObj [(''datname'', JStr ''a''), (''x'', JInt 5)],
                      JObj [(''datname'', JStr ''b''), (''x'', JInt 1)]] \<rparr>,
      \<lparr> snapshot.timestamp = ''2024-01-02T00:00:00'',
        stats = JArr [JObj [(''datname'', JStr ''a''), (''x'', JInt 7)],
                      JObj [(''datname'', JStr ''b''), (''y'', JInt 2)]] \<rparr>] ''x''
   = Inr [(StrKey ''a'', [''2024-01-01T00:00:00'', ''2024-01-02T00:00:00''], [JInt 5, JInt 7]),
          (StrKey ''b'', [''2024-01-01T00:00:00''], [JInt 1])] \<and>
   grows_to [(StrKey ''a'', [''2024-01-01T00:00:00''], [JInt 5])]
            [(StrKey ''a'', [''2024-01-01T00:00:00'', ''2024-01-02T00:00:00''], [JInt 5, JInt 7])]"
proof -
  have start: "well_formed_series [(StrKey ''a'', [''2024-01-01T00:00:00''], [JInt 5])]"
    by (simp add: well_formed_series_def)
  have step: "add_record ''2024-01-02T00:00:00'' ''x''
        [(StrKey ''a'', [''2024-01-01T00:00:00''], [JInt 5])]
        (JObj [(''datname'', JStr ''a''), (''x'', JInt 7)])
      = Inr [(StrKey ''a'', [''2024-01-01T00:00:00'', ''2024-01-02T00:00:00''], [JInt 5, JInt 7])]"
    by (simp add: add_record_def)
  have run: "build_timeseries
     [\<lparr> snapshot.timestamp = ''2024-01-01T00:00:00'',
        stats = JArr [JObj [(''datname'', JStr ''a''), (''x'', JInt 5)],
                      JObj [(''datname'', JStr ''b''), (''x'', JInt 1)]] \<rparr>,
      \<lparr> snapshot.timestamp = ''2024-01-02T00:00:00'',
        stats = JArr [JObj [(''datname'', JStr ''a''), (''x'', JInt 7)],
                      JObj [(''datname'', JStr ''b''), (''y'', JInt 2)]] \<rparr>] ''x''
   = Inr [(StrKey ''a'', [''2024-01-01T00:00:00'', ''2024-01-02T00:00:00''], [JInt 5, JInt 7]),
          (StrKey ''b'', [''2024-01-01T00:00:00''], [JInt 1])]"
    by (simp add: build_timeseries_def add_record_def)
  from timeseries_parallel_append_only [of _ "''x''" "[(StrKey ''a'', [''2024-01-01T00:00:00''], [JInt 5])]"
      "''2024-01-02T00:00:00''" "JObj [(''datname'', JStr ''a''), (''x'', JInt 7)]"]
    start step
  have "grows_to [(StrKey ''a'', [''2024-01-01T00:00:00''], [JInt 5])]
            [(StrKey ''a'', [''2024-01-01T00:00:00'', ''2024-01-02T00:00:00''], [JInt 5, JInt 7])]"
    by blast
  with run show ?thesis by (rule conjI)
qed


subsection \<open>The two empty outcomes\<close>

lemma add_record_lacking:
  "py_get r metric JNull = Inr JNull \<Longrightarrow> add_record t metric ts r = Inr ts"
  by (cases r) (auto simp: add_record_def split: option.splits)

lemma records_loop_lacking:
  "list_all (\<lambda>r. py_get r metric JNull = Inr JNull) records \<Longrightarrow>
     records_loop t metric ts records = Inr ts"
  by (induction records) (auto simp: add_record_lacking)

lemma timeseries_loop_lacking:
  "list_all (lacks_metric metric) snaps \<Longrightarrow> timeseries_loop metric ts snaps = Inr ts"
  by (induction snaps) (auto simp: lacks_metric_def records_loop_lacking split: sum.splits)

lemma load_snapshots_no_match:
  "list_all (\<lambda>n. \<not> glob_stats_json n) (map fst dir) \<Longrightarrow>
     load_snapshots fromiso now dir = Inr ([], [])"
proof -
  assume "list_all (\<lambda>n. \<not> glob_stats_json n) (map fst dir)"
  then have "filter glob_stats_json (map fst dir) = []"
    by (simp add: list_all_iff filter_empty_conv)
  then show ?thesis by (simp add: load_snapshots_def)
qed

text \<open>
  Claim C8 (two distinct empty outcomes). A directory without a name matching the pattern
  loads to the empty collection and \<^verbatim>\<open>main\<close> prints the no-files message without calling
  the extractor or the plot. A non-empty collection in which every entry of every snapshot
  lacks the metric (or carries \<^verbatim>\<open>null\<close> for it) yields the empty mapping, and \<^verbatim>\<open>main\<close>
  prints the metric-not-found message, which is not the no-files message.
\<close>

theorem empty_outcomes_distinct:
  "(list_all (\<lambda>n. \<not> glob_stats_json n) (map fst dir) \<longrightarrow>
      load_snapshots (fromiso :: string \<Rightarrow> 'd option) now dir = Inr ([], []) \<and>
      main fromiso now metric dir = Inr NoStatFiles) \<and>
   (snapshots \<noteq> [] \<and> list_all (lacks_metric metric) snapshots \<longrightarrow>
      build_timeseries snapshots metric = Inr [] \<and>
      (\<forall>dir' printed. load_snapshots fromiso now dir' = Inr (snapshots, printed) \<longrightarrow>
         main fromiso now metric dir' = Inr (MetricNotFound metric))) \<and>
   (NoStatFiles :: 'd report) \<noteq> MetricNotFound metric"
proof -
  have none: "load_snapshots fromiso now dir = Inr ([], []) \<and>
      main fromiso now metric dir = Inr NoStatFiles"
    if "list_all (\<lambda>n. \<not> glob_stats_json n) (map fst dir)"
    using load_snapshots_no_match [OF that, of fromiso now] by (simp add: main_def)
  have lacking: "build_timeseries snapshots metric = Inr [] \<and>
      (\<forall>dir' printed. load_snapshots fromiso now dir' = Inr (snapshots, printed) \<longrightarrow>
         main fromiso now metric dir' = Inr (MetricNotFound metric))"
    if "snapshots \<noteq> [] \<and> list_all (lacks_metric metric) snapshots"
  proof -
    from that have "build_timeseries snapshots metric = Inr []"
      by (simp add: build_timeseries_def timeseries_loop_lacking)
    with that show ?thesis by (simp add: main_def)
  qed
  from none lacking show ?thesis by simp
qed


theorem empty_outcomes_distinct_witness:
  "main sample_fromiso sample_now ''x''
     [(''readme.txt'', Content JNull), (''stats.json'', Unopenable)] = Inr NoStatFiles \<and>
   main sample_fromiso sample_now ''x''
     [(''stats_1.json'',
       Content (stats_doc ''2024-01-01T00:00:00'' [JObj [(''datname'', JStr ''a''), (''y'', JInt 5)]]))]
     = Inr (MetricNotFound ''x'')"
proof -
  let ?dir0 = "[(''readme.txt'', Content JNull), (''stats.json'', Unopenable)]"
  let ?dir1 = "[(''stats_1.json'',
       Content (stats_doc ''2024-01-01T00:00:00'' [JObj [(''datname'', JStr ''a''), (''y'', JInt 5)]]))]"
  let ?snaps = "[\<lparr> snapshot.timestamp = ''2024-01-01T00:00:00'',
       stats = JArr [JObj [(''datname'', JStr ''a''), (''y'', JInt 5)]] \<rparr>]"
  have no_match: "list_all (\<lambda>n. \<not> glob_stats_json n) (map fst ?dir0)"
    by (simp add: glob_stats_json_def endswith_json_def)
  have loaded: "load_snapshots sample_fromiso sample_now ?dir1 = Inr (?snaps, [])"
    by (simp add: load_snapshots_def glob_stats_json_def endswith_json_def py_open_def
        parse_snapshot_def make_snapshot_def stats_doc_def sample_fromiso_def)
  have lacking: "?snaps \<noteq> [] \<and> list_all (lacks_metric ''x'') ?snaps"
    by (simp add: lacks_metric_def)
  from empty_outcomes_distinct [of ?dir0 sample_fromiso sample_now "''x''" ?snaps] no_match
  have first: "main sample_fromiso sample_now ''x'' ?dir0 = Inr NoStatFiles"
    by blast
  from empty_outcomes_distinct [of ?dir0 sample_fromiso sample_now "''x''" ?snaps] lacking loaded
  have second: "main sample_fromiso sample_now ''x'' ?dir1 = Inr (MetricNotFound ''x'')"
    by blast
  from first second show ?thesis by (rule conjI)
qed

subsection \<open>The end-to-end example\<close>

text \<open>
  Claim C9 (end-to-end example). The directory holds exactly the two files of the
  example, in either listing order, under names that match the pattern and sort in the
  chronological order the producer's naming convention gives them. Loading it and
  extracting the metric \<^verbatim>\<open>x\<close> yields the single entity \<^verbatim>\<open>a\<close> with the two parsed
  timestamps and the values 5 and 7, and \<^verbatim>\<open>main\<close> plots exactly this mapping.
\<close>

theorem end_to_end_example:
  assumes "fromiso ''2024-01-01T00:00:00'' = Some t1"
    and "fromiso ''2024-01-02T00:00:00'' = Some t2"
    and "glob_stats_json n1" and "glob_stats_json n2" and "n1 < n2"
    and "dir = [(n1, Content (stats_doc ''2024-01-01T00:00:00'' [JObj [(''datname'', JStr ''a''), (''x'', JInt 5)]])),
                (n2, Content (stats_doc ''2024-01-02T00:00:00'' [JObj [(''datname'', JStr ''a''), (''x'', JInt 7)]]))] \<or>
         dir = [(n2, Content (stats_doc ''2024-01-02T00:00:00'' [JObj [(''datname'', JStr ''a''), (''x'', JInt 7)]])),
                (n1, Content (stats_doc ''2024-01-01T00:00:00'' [JObj [(''datname'', JStr ''a''), (''x'', JInt 5)]]))]"
  shows "and_then (load_snapshots fromiso now dir) (\<lambda>loaded. build_timeseries (fst loaded) ''x'')
           = Inr [(StrKey ''a'', [t1, t2], [JInt 5, JInt 7])] \<and>
         main fromiso now ''x'' dir = Inr (PlotMetric [(StrKey ''a'', [t1, t2], [JInt 5, JInt 7])] ''x'')"
proof -
  have names: "sort (filter glob_stats_json (map fst dir)) = [n1, n2]"
    using assms(3-6) by auto
  have differ: "n1 \<noteq> n2" "n2 \<noteq> n1"
    using assms(5) by auto
  have loaded: "load_snapshots fromiso now dir =
      Inr ([\<lparr> snapshot.timestamp = t1, stats = JArr [JObj [(''datname'', JStr ''a''), (''x'', JInt 5)]] \<rparr>,
            \<lparr> snapshot.timestamp = t2, stats = JArr [JObj [(''datname'', JStr ''a''), (''x'', JInt 7)]] \<rparr>], [])"
    unfolding load_snapshots_def names
    using assms(1,2,6) differ
    by (auto simp: py_open_def parse_snapshot_def make_snapshot_def stats_doc_def)
  have series: "build_timeseries
       [\<lparr> snapshot.timestamp = t1, stats = JArr [JObj [(''datname'', JStr ''a''), (''x'', JInt 5)]] \<rparr>,
        \<lparr> snapshot.timestamp = t2, stats = JArr [JObj [(''datname'', JStr ''a''), (''x'', JInt 7)]] \<rparr>] ''x''
      = Inr [(StrKey ''a'', [t1, t2], [JInt 5, JInt 7])]"
    by (simp add: build_timeseries_def add_record_def)
  show ?thesis
    by (simp add: main_def loaded series)
qed

theorem end_to_end_example_witness:
  "main sample_fromiso sample_now ''x''
     [(''stats_2.json'', Content (stats_doc ''2024-01-02T00:00:00'' [JObj [(''datname'', JStr ''a''), (''x'', JInt 7)]])),
      (''stats_1.json'', Content (stats_doc ''2024-01-01T00:00:00'' [JObj [(''datname'', JStr ''a''), (''x'', JInt 5)]]))]
   = Inr (PlotMetric [(StrKey ''a'', [''2024-01-01T00:00:00'', ''2024-01-02T00:00:00''], [JInt 5, JInt 7])] ''x'')"
proof -
  have t1: "sample_fromiso ''2024-01-01T00:00:00'' = Some ''2024-01-01T00:00:00''"
    by (simp add: sample_fromiso_def)
  have t2: "sample_fromiso ''2024-01-02T00:00:00'' = Some ''2024-01-02T00:00:00''"
    by (simp add: sample_fromiso_def)
  have g1: "glob_stats_json ''stats_1.json''"
    by (simp add: glob_stats_json_def endswith_json_def)
  have g2: "glob_stats_json ''stats_2.json''"
    by (simp add: glob_stats_json_def endswith_json_def)
  have lt: "''stats_1.json'' < ''stats_2.json''"
    by simp
  from end_to_end_example [OF t1 t2 g1 g2 lt, of _ sample_now] show ?thesis
    by blast
qed

end
